theory Spec2Isabelle
  imports Complex_Main
begin

section \<open>Cargo payment calculator (cargo\_payment.py)\<close>

text \<open>
  The module computes the income of a cargo delivery from the cargo's three constants,
  the amount, the distance and the transit time, and sweeps distances and speeds into
  the columns of a table.

  Numbers: the Python code mixes \<open>int\<close> and \<open>float\<close>; every arithmetic result that the
  claims speak about is a \<open>float\<close>. The model reads them as exact reals (type \<open>real\<close>),
  so IEEE rounding, overflow to infinity and NaN are outside the model. The cargo
  constants are Python \<open>int\<close>s and stay \<open>int\<close>.
\<close>

subsection \<open>The \<open>Cargo\<close> enumeration\<close>

text \<open>
  \<open>class Cargo(Enum)\<close> binds names to tuples \<open>(Base Pay, Days1, Days2)\<close>. A member of
  the enumeration has a \<open>name\<close> and a \<open>value\<close>.
\<close>

type_synonym cargo_value = "int \<times> int \<times> int"

record cargo =
  name :: string
  cvalue :: cargo_value

text \<open>The class body, line by line (lines 14 to 46 of the source).\<close>

definition Cargo_body :: "(string \<times> cargo_value) list" where
  "Cargo_body =
    [(''Batteries'',        (4322,  2,  30)),
     (''Bubbles'',          (5077, 20,  80)),
     (''Candyfloss'',       (5005, 10,  25)),
     (''Coal'',             (5916,  7, 255)),
     (''Cola'',             (4892,  5,  75)),
     (''Copper_Ore'',       (4892, 12, 255)),
     (''Diamonds'',         (5802, 10, 255)),
     (''Fizzy_Drinks'',     (6250, 30,  50)),
     (''Food'',             (5688,  0,  30)),
     (''Fruit'',            (4209,  0,  15)),
     (''Gold'',             (5802, 10,  40)),
     (''Goods'',            (6144,  5,  28)),
     (''Grain'',            (4778,  4,  40)),
     (''Iron_Ore'',         (5120,  9, 255)),
     (''Livestock'',        (4322,  4,  18)),
     (''Mail'',             (4550, 20,  90)),
     (''Maize'',            (4322,  4,  40)),
     (''Oil'',              (4437, 25, 255)),
     (''Oil_subtropical'',  (4892, 25, 255)),
     (''Paper'',            (5461,  7,  60)),
     (''Passengers'',       (3185,  0,  24)),
     (''Plastic'',          (4664, 30, 255)),
     (''Rubber'',           (4437,  2,  20)),
     (''Steel'',            (5688,  7, 255)),
     (''Sugar'',            (4437, 20, 255)),
     (''Sweets'',           (6144,  8,  40)),
     (''Toffee'',           (4778, 14,  60)),
     (''Toys'',             (5574, 25, 255)),
     (''Valuables'',        (7509,  1,  32)),
     (''Water'',            (4664, 20,  80)),
     (''Wheat'',            (4778,  4,  40)),
     (''Wood'',             (5005, 15, 255)),
     (''Wood_subtropical'', (7964, 15, 255))]"

text \<open>
  Python's \<open>Enum\<close> creates one member for each value, in definition order: a name whose
  value is already the value of an earlier member becomes an alias of that member and
  creates no member of its own. \<open>enum_members body ms\<close> runs over the class body with
  the members \<open>ms\<close> created so far.
\<close>

fun enum_members :: "(string \<times> cargo_value) list \<Rightarrow> cargo list \<Rightarrow> cargo list" where
  "enum_members [] ms = ms"
| "enum_members ((n, v) # body) ms =
     (if v \<in> set (map cvalue ms) then enum_members body ms
      else enum_members body (ms @ [\<lparr>name = n, cvalue = v\<rparr>]))"

text \<open>\<open>list(Cargo)\<close>: the members of the enumeration, in definition order.\<close>

definition Cargo :: "cargo list" where
  "Cargo = enum_members Cargo_body []"


text \<open>\<open>Cargo.Passengers\<close>, line 34 of the source.\<close>

definition Passengers :: cargo where
  "Passengers = \<lparr>name = ''Passengers'', cvalue = (3185, 0, 24)\<rparr>"

subsection \<open>\<open>income\<close>\<close>

text \<open>
  \<open>income(cargo, amount, distance, time, ingametime=True)\<close>. \<open>pow(2,-21)\<close> is the
  integer power \<open>2 powi (-21)\<close>.
\<close>

definition income :: "cargo \<Rightarrow> real \<Rightarrow> real \<Rightarrow> real \<Rightarrow> bool \<Rightarrow> real" where
  "income cargo amount distance time ingametime =
     (let time = (if ingametime then time * 2.5 else time)
      in case cvalue cargo of (base_pay, days1, days2) \<Rightarrow>
        let tbonus =
              (if time \<le> real_of_int days1 then 255
               else if real_of_int days1 < time \<and> time \<le> real_of_int (days1 + days2)
                 then 255 - (time - real_of_int days1)
               else 255 - 2 * (time - real_of_int days1) + real_of_int days2)
        in if tbonus < 31
           then real_of_int base_pay * amount * 31 * (2 powi (-21))
           else real_of_int base_pay * amount * distance * tbonus * (2 powi (-21)))"

text \<open>
  The time bonus in the spec's words (section 4.3), on the scaled time: the three
  branches of the piecewise function, with no clamp at zero.
\<close>

definition spec_tbonus :: "int \<Rightarrow> int \<Rightarrow> real \<Rightarrow> real" where
  "spec_tbonus days1 days2 t =
     (if t \<le> real_of_int days1 then 255
      else if real_of_int days1 < t \<and> t \<le> real_of_int days1 + real_of_int days2
        then 255 - (t - real_of_int days1)
      else 255 - 2 * (t - real_of_int days1) + real_of_int days2)"

subsection \<open>Python values, errors\<close>

text \<open>
  The parameter \<open>is_aircraft\<close> of \<open>income_vs_distance_speed\<close> is documented as a
  \<open>bool\<close>, has the default \<open>False\<close>, and is measured with \<open>len\<close>, which asks for a
  list; \<open>speed_distance_to_time\<close> tests its parameter \<open>aircraft\<close> for truth. The model
  keeps both shapes of value.
\<close>

datatype pyval = PyBool bool | PyList "bool list"

datatype error = TypeError | ValueError string | ZeroDivisionError

text \<open>Truth value testing: \<open>if aircraft:\<close>. An empty list is false, any other list true.\<close>

fun truthy :: "pyval \<Rightarrow> bool" where
  "truthy (PyBool b) = b"
| "truthy (PyList xs) = (xs \<noteq> [])"

text \<open>\<open>len(x)\<close>: a \<open>bool\<close> has no length, \<open>len\<close> raises \<open>TypeError\<close>.\<close>

fun len :: "pyval \<Rightarrow> error + nat" where
  "len (PyBool b) = Inl TypeError"
| "len (PyList xs) = Inr (length xs)"

subsection \<open>\<open>speed_distance_to_time\<close>\<close>

text \<open>
  \<open>speed_distance_to_time(speed, distance, aircraft=False)\<close>. The last line divides;
  Python raises \<open>ZeroDivisionError\<close> when the divisor is zero.
\<close>

definition speed_distance_to_time :: "real \<Rightarrow> real \<Rightarrow> pyval \<Rightarrow> error + real" where
  "speed_distance_to_time speed distance aircraft =
     (let speed = (if truthy aircraft then speed / 4 else speed);
          speed_tiles_per_day = speed * 24 / 668
      in if speed_tiles_per_day = 0 then Inl ZeroDivisionError
         else Inr (distance / speed_tiles_per_day))"

subsection \<open>\<open>income_vs_distance_speed\<close>\<close>

text \<open>
  The function fills four columns, builds a data frame from them and hands the frame
  to the plotting library. The model returns the frame's columns; the figure drawn from
  them is outside the model.
\<close>

record frame =
  Speed :: "real list"
  Distance :: "int list"
  Time :: "real list"
  Income :: "real list"

text \<open>
  The inner loop \<open>for distance in range(distance_bounds[0], distance_bounds[1]+1)\<close>,
  on the columns \<open>time_col\<close> and \<open>income_col\<close>. It passes \<open>is_aircraft\<close> as it received
  it. \<open>time_col[-1]\<close> is the last element of the column just appended to. An exception
  leaves the loop and the function.
\<close>

fun distance_loop ::
  "cargo \<Rightarrow> real \<Rightarrow> pyval \<Rightarrow> int list \<Rightarrow> real list \<times> real list \<Rightarrow> error + real list \<times> real list"
where
  "distance_loop cargo speed is_aircraft [] (time_col, income_col) = Inr (time_col, income_col)"
| "distance_loop cargo speed is_aircraft (distance # ds) (time_col, income_col) =
     (case speed_distance_to_time speed (real_of_int distance) is_aircraft of
        Inl e \<Rightarrow> Inl e
      | Inr t \<Rightarrow>
          (let time_col = time_col @ [t];
               income_col = income_col @ [income cargo 1 (real_of_int distance) (last time_col) True]
           in distance_loop cargo speed is_aircraft ds (time_col, income_col)))"

text \<open>
  The outer loop \<open>for i in range(len(speeds))\<close>, on the four columns;
  \<open>range(lo, hi+1)\<close> is the list \<open>[lo..hi]\<close>.
\<close>

fun speed_loop ::
  "cargo \<Rightarrow> int \<times> int \<Rightarrow> real list \<Rightarrow> pyval \<Rightarrow> nat list \<Rightarrow> frame \<Rightarrow> error + frame"
where
  "speed_loop cargo distance_bounds speeds is_aircraft [] df = Inr df"
| "speed_loop cargo distance_bounds speeds is_aircraft (i # is) df =
     (let rng = [fst distance_bounds..snd distance_bounds];
          speed_col = Speed df @ replicate (length rng) (speeds ! i);
          distance_col = Distance df @ rng
      in case distance_loop cargo (speeds ! i) is_aircraft rng (Time df, Income df) of
           Inl e \<Rightarrow> Inl e
         | Inr (time_col, income_col) \<Rightarrow>
             speed_loop cargo distance_bounds speeds is_aircraft is
               \<lparr>Speed = speed_col, Distance = distance_col,
                Time = time_col, Income = income_col\<rparr>)"

text \<open>
  \<open>income_vs_distance_speed(cargo, distance_bounds=[0,500], speeds=[50], is_aircraft=False)\<close>:
  the length check, then the loops from four empty columns.
\<close>

definition income_vs_distance_speed ::
  "cargo \<Rightarrow> int \<times> int \<Rightarrow> real list \<Rightarrow> pyval \<Rightarrow> error + frame"
where
  "income_vs_distance_speed cargo distance_bounds speeds is_aircraft =
     (case len is_aircraft of
        Inl e \<Rightarrow> Inl e
      | Inr n \<Rightarrow>
          if length speeds \<noteq> n
          then Inl (ValueError ''speeds and aircraft must be of same length'')
          else speed_loop cargo distance_bounds speeds is_aircraft [0..<length speeds]
                 \<lparr>Speed = [], Distance = [], Time = [], Income = []\<rparr>)"

text \<open>The default value of the parameter \<open>is_aircraft\<close>.\<close>

definition is_aircraft_default :: pyval where
  "is_aircraft_default = PyBool False"

section \<open>Properties\<close>

subsection \<open>The catalogue\<close>

lemma Cargo_members:
  "Cargo =
    [\<lparr>name = ''Batteries'',        cvalue = (4322,  2,  30)\<rparr>,
     \<lparr>name = ''Bubbles'',          cvalue = (5077, 20,  80)\<rparr>,
     \<lparr>name = ''Candyfloss'',       cvalue = (5005, 10,  25)\<rparr>,
     \<lparr>name = ''Coal'',             cvalue = (5916,  7, 255)\<rparr>,
     \<lparr>name = ''Cola'',             cvalue = (4892,  5,  75)\<rparr>,
     \<lparr>name = ''Copper_Ore'',       cvalue = (4892, 12, 255)\<rparr>,
     \<lparr>name = ''Diamonds'',         cvalue = (5802, 10, 255)\<rparr>,
     \<lparr>name = ''Fizzy_Drinks'',     cvalue = (6250, 30,  50)\<rparr>,
     \<lparr>name = ''Food'',             cvalue = (5688,  0,  30)\<rparr>,
     \<lparr>name = ''Fruit'',            cvalue = (4209,  0,  15)\<rparr>,
     \<lparr>name = ''Gold'',             cvalue = (5802, 10,  40)\<rparr>,
     \<lparr>name = ''Goods'',            cvalue = (6144,  5,  28)\<rparr>,
     \<lparr>name = ''Grain'',            cvalue = (4778,  4,  40)\<rparr>,
     \<lparr>name = ''Iron_Ore'',         cvalue = (5120,  9, 255)\<rparr>,
     \<lparr>name = ''Livestock'',        cvalue = (4322,  4,  18)\<rparr>,
     \<lparr>name = ''Mail'',             cvalue = (4550, 20,  90)\<rparr>,
     \<lparr>name = ''Maize'',            cvalue = (4322,  4,  40)\<rparr>,
     \<lparr>name = ''Oil'',              cvalue = (4437, 25, 255)\<rparr>,
     \<lparr>name = ''Oil_subtropical'',  cvalue = (4892, 25, 255)\<rparr>,
     \<lparr>name = ''Paper'',            cvalue = (5461,  7,  60)\<rparr>,
     \<lparr>name = ''Passengers'',       cvalue = (3185,  0,  24)\<rparr>,
     \<lparr>name = ''Plastic'',          cvalue = (4664, 30, 255)\<rparr>,
     \<lparr>name = ''Rubber'',           cvalue = (4437,  2,  20)\<rparr>,
     \<lparr>name = ''Steel'',            cvalue = (5688,  7, 255)\<rparr>,
     \<lparr>name = ''Sugar'',            cvalue = (4437, 20, 255)\<rparr>,
     \<lparr>name = ''Sweets'',           cvalue = (6144,  8,  40)\<rparr>,
     \<lparr>name = ''Toffee'',           cvalue = (4778, 14,  60)\<rparr>,
     \<lparr>name = ''Toys'',             cvalue = (5574, 25, 255)\<rparr>,
     \<lparr>name = ''Valuables'',        cvalue = (7509,  1,  32)\<rparr>,
     \<lparr>name = ''Water'',            cvalue = (4664, 20,  80)\<rparr>,
     \<lparr>name = ''Wood'',             cvalue = (5005, 15, 255)\<rparr>,
     \<lparr>name = ''Wood_subtropical'', cvalue = (7964, 15, 255)\<rparr>]"
  by (simp add: Cargo_def Cargo_body_def)

lemma Cargo_all_positive:
  "list_all (\<lambda>c. case cvalue c of (base_pay, days1, days2) \<Rightarrow>
               0 < base_pay \<and> 0 \<le> days1 \<and> 0 \<le> days2) Cargo"
  by (simp add: Cargo_members)

lemma Cargo_base_pay_positive:
  assumes "c \<in> set Cargo" and "cvalue c = (base_pay, days1, days2)"
  shows "0 < base_pay" and "0 \<le> days1" and "0 \<le> days2"
  using assms Cargo_all_positive by (auto simp: list_all_iff)

lemma Passengers_member: "Passengers \<in> set Cargo"
  by (simp add: Cargo_members Passengers_def)




subsection \<open>Income\<close>

text \<open>With the default flag, the code's inline time bonus is the spec's piecewise function.\<close>

lemma income_ingame:
  assumes "cvalue c = (base_pay, days1, days2)"
  shows "income c amount distance time True =
     (if spec_tbonus days1 days2 (time * 2.5) < 31
      then real_of_int base_pay * amount * 31 * (2 powi (-21))
      else real_of_int base_pay * amount * distance
             * spec_tbonus days1 days2 (time * 2.5) * (2 powi (-21)))"
  using assms by (simp add: income_def spec_tbonus_def Let_def)

text \<open>
  Claim C1. For a cargo with constants \<open>(base_pay, days1, days2)\<close> and any amount,
  distance and time, \<open>income\<close> with the ingame-days flag set scales the time by 2.5,
  takes the time bonus of the spec's three branches on the scaled time, and, when the
  bonus is at least 31, returns \<open>base_pay * amount * distance * tbonus * 2^-21\<close>.
\<close>

theorem income_formula:
  assumes "cvalue c = (base_pay, days1, days2)"
      and "31 \<le> spec_tbonus days1 days2 (time * 2.5)"
  shows "income c amount distance time True =
           real_of_int base_pay * amount * distance
             * spec_tbonus days1 days2 (time * 2.5) * (2 powi (-21))"
  using assms by (simp add: income_ingame)

theorem income_formula_witness:
  "cvalue \<lparr>name = ''Coal'', cvalue = (5916, 7, 255)\<rparr> = (5916, 7, 255)
   \<and> 31 \<le> spec_tbonus 7 255 (10 * 2.5)
   \<and> spec_tbonus 7 255 (10 * 2.5) = 237
   \<and> income \<lparr>name = ''Coal'', cvalue = (5916, 7, 255)\<rparr> 2 50 10 True
         = 5916 * 2 * 50 * 237 * (2 powi (-21))"
proof -
  have v: "cvalue \<lparr>name = ''Coal'', cvalue = (5916, 7, 255)\<rparr> = (5916, 7, 255)" by simp
  have b: "spec_tbonus 7 255 (10 * 2.5) = 237" by (simp add: spec_tbonus_def)
  have h: "31 \<le> spec_tbonus 7 255 (10 * 2.5)" by (simp add: spec_tbonus_def)
  show ?thesis using income_formula [OF v h, of 2 50] v h b by simp
qed

text \<open>
  Claim C3. When the time bonus of the scaled time is below 31, however far below,
  \<open>income\<close> returns \<open>base_pay * amount * 31 * 2^-21\<close>, whatever the distance; for a
  cargo of the catalogue and a positive amount this income is positive.
\<close>

theorem income_floor:
  assumes "cvalue c = (base_pay, days1, days2)"
      and "spec_tbonus days1 days2 (time * 2.5) < 31"
  shows "income c amount distance time True = real_of_int base_pay * amount * 31 * (2 powi (-21))
         \<and> income c amount distance time True = income c amount distance' time True
         \<and> (c \<in> set Cargo \<and> 0 < amount \<longrightarrow> 0 < income c amount distance time True)"
proof -
  have eq: "income c amount d time True = real_of_int base_pay * amount * 31 * (2 powi (-21))"
    for d
    using assms by (simp add: income_ingame)
  have pos: "0 < income c amount distance time True" if "c \<in> set Cargo" and "0 < amount"
  proof -
    have "0 < base_pay" using Cargo_base_pay_positive(1) [OF that(1) assms(1)] .
    then show ?thesis using that(2) by (simp add: eq)
  qed
  have indep: "income c amount distance time True = income c amount distance' time True"
    by (simp only: eq)
  show ?thesis using eq [of distance] indep pos by blast
qed

theorem income_floor_witness:
  "cvalue Passengers = (3185, 0, 24)
   \<and> spec_tbonus 0 24 (1000 * 2.5) = - 4721
   \<and> income Passengers 1 100 1000 True = 3185 * 1 * 31 * (2 powi (-21))
   \<and> Passengers \<in> set Cargo \<and> 0 < income Passengers 1 100 1000 True"
proof -
  have v: "cvalue Passengers = (3185, 0, 24)" by (simp add: Passengers_def)
  have b: "spec_tbonus 0 24 (1000 * 2.5) = - 4721" by (simp add: spec_tbonus_def)
  have h: "spec_tbonus 0 24 (1000 * 2.5) < 31" by (simp add: spec_tbonus_def)
  show ?thesis using income_floor [OF v h, of 1 100 100] v b Passengers_member by simp
qed

text \<open>
  Claim C9. For a cargo of the catalogue, an amount that is not negative and a fixed
  speed, if the times of two distances \<open>distance1 \<le> distance2\<close> both scale to at most
  \<open>days1\<close>, the income at \<open>distance2\<close> is at least the income at \<open>distance1\<close>: both are
  \<open>base_pay * amount * distance * 255 * 2^-21\<close>.
\<close>

theorem income_monotone_in_distance:
  assumes "c \<in> set Cargo" and "cvalue c = (base_pay, days1, days2)"
      and "0 \<le> amount" and "distance1 \<le> distance2"
      and "speed_distance_to_time speed distance1 aircraft = Inr time1"
      and "speed_distance_to_time speed distance2 aircraft = Inr time2"
      and "time1 * 2.5 \<le> real_of_int days1" and "time2 * 2.5 \<le> real_of_int days1"
  shows "income c amount distance1 time1 True \<le> income c amount distance2 time2 True
         \<and> income c amount distance1 time1 True
             = real_of_int base_pay * amount * distance1 * 255 * (2 powi (-21))
         \<and> income c amount distance2 time2 True
             = real_of_int base_pay * amount * distance2 * 255 * (2 powi (-21))"
proof -
  have bp: "0 < base_pay" using Cargo_base_pay_positive(1) [OF assms(1,2)] .
  have i1: "income c amount distance1 time1 True
             = real_of_int base_pay * amount * distance1 * 255 * (2 powi (-21))"
    using assms(2,7) by (simp add: income_ingame spec_tbonus_def)
  have i2: "income c amount distance2 time2 True
             = real_of_int base_pay * amount * distance2 * 255 * (2 powi (-21))"
    using assms(2,8) by (simp add: income_ingame spec_tbonus_def)
  have "0 \<le> real_of_int base_pay * amount" using bp assms(3) by simp
  then have "real_of_int base_pay * amount * distance1 \<le> real_of_int base_pay * amount * distance2"
    using assms(4) by (rule mult_left_mono [rotated])
  then have "real_of_int base_pay * amount * distance1 * 255 * (2 powi (-21))
               \<le> real_of_int base_pay * amount * distance2 * 255 * (2 powi (-21))"
    by (intro mult_right_mono) simp_all
  then have "income c amount distance1 time1 True \<le> income c amount distance2 time2 True"
    by (simp only: i1 i2)
  then show ?thesis using i1 i2 by blast
qed

theorem income_monotone_in_distance_witness:
  "\<lparr>name = ''Coal'', cvalue = (5916, 7, 255)\<rparr> \<in> set Cargo
   \<and> speed_distance_to_time 1000 1 (PyBool False) = Inr (167 / 6000)
   \<and> speed_distance_to_time 1000 2 (PyBool False) = Inr (167 / 3000)
   \<and> (167 / 6000 :: real) * 2.5 \<le> real_of_int 7 \<and> (167 / 3000 :: real) * 2.5 \<le> real_of_int 7
   \<and> income \<lparr>name = ''Coal'', cvalue = (5916, 7, 255)\<rparr> 3 1 (167 / 6000) True
       \<le> income \<lparr>name = ''Coal'', cvalue = (5916, 7, 255)\<rparr> 3 2 (167 / 3000) True
   \<and> income \<lparr>name = ''Coal'', cvalue = (5916, 7, 255)\<rparr> 3 2 (167 / 3000) True
       = 5916 * 3 * 2 * 255 * (2 powi (-21))"
proof -
  have m: "\<lparr>name = ''Coal'', cvalue = (5916, 7, 255)\<rparr> \<in> set Cargo"
    by (simp add: Cargo_members)
  have v: "cvalue \<lparr>name = ''Coal'', cvalue = (5916, 7, 255)\<rparr> = (5916, 7, 255)" by simp
  have a: "(0::real) \<le> 3" and d: "(1::real) \<le> 2" by simp_all
  have t1: "speed_distance_to_time 1000 1 (PyBool False) = Inr (167 / 6000)"
    by (simp add: speed_distance_to_time_def)
  have t2: "speed_distance_to_time 1000 2 (PyBool False) = Inr (167 / 3000)"
    by (simp add: speed_distance_to_time_def)
  have h1: "(167 / 6000 :: real) * 2.5 \<le> real_of_int 7" by simp
  have h2: "(167 / 3000 :: real) * 2.5 \<le> real_of_int 7" by simp
  show ?thesis
    using income_monotone_in_distance [OF m v a d t1 t2 h1 h2] m t1 t2 h1 h2 by simp
qed

subsection \<open>Travel time\<close>

text \<open>
  Claim C2. For a positive speed and a distance that is not negative,
  \<open>speed_distance_to_time\<close> returns \<open>distance / (effective * 24 / 668)\<close>, where the
  effective speed is a quarter of the speed for an aircraft and the speed otherwise;
  so the time of an aircraft at speed \<open>s\<close> is the time of another vehicle at \<open>s / 4\<close>.
\<close>

theorem speed_distance_to_time_value:
  assumes "0 < speed" and "0 \<le> distance"
  shows "speed_distance_to_time speed distance (PyBool isAircraft)
           = Inr (distance / ((if isAircraft then speed / 4 else speed) * 24 / 668))
         \<and> speed_distance_to_time speed distance (PyBool True)
           = speed_distance_to_time (speed / 4) distance (PyBool False)"
  using assms by (simp add: speed_distance_to_time_def)

theorem speed_distance_to_time_value_witness:
  "(0::real) < 100 \<and> (0::real) \<le> 100
   \<and> speed_distance_to_time 100 100 (PyBool True) = Inr (100 / (100 / 4 * 24 / 668))
   \<and> speed_distance_to_time 100 100 (PyBool True) = speed_distance_to_time (100 / 4) 100 (PyBool False)"
proof -
  have s: "(0::real) < 100" and d: "(0::real) \<le> 100" by simp_all
  show ?thesis using s d speed_distance_to_time_value [OF s d, of True]
    unfolding if_True by blast
qed

text \<open>
  Claim C5, as the spec states it: the function fails for every speed \<open>\<le> 0\<close>. The code
  has no check of the speed. At speed \<open>-100\<close> and distance 100 it returns the negative
  time \<open>-167/6\<close>.
\<close>

theorem speed_distance_to_time_negative_speed_counterexample:
  "(- 100 :: real) \<le> 0
   \<and> speed_distance_to_time (- 100) 100 (PyBool False) = Inr (- (167 / 6))
   \<and> \<not> isl (speed_distance_to_time (- 100) 100 (PyBool False))
   \<and> (- (167 / 6) :: real) < 0"
  by (simp add: speed_distance_to_time_def)

text \<open>
  Claim C5, amended. For a speed \<open>\<le> 0\<close>: at speed 0 the division raises
  \<open>ZeroDivisionError\<close>, so no infinity is returned; at a negative speed the function
  returns \<open>distance / (effective * 24 / 668)\<close>, which is negative for a positive distance.
\<close>

theorem speed_distance_to_time_nonpositive:
  assumes "speed \<le> 0"
  shows "(speed = 0 \<longrightarrow> speed_distance_to_time speed distance aircraft = Inl ZeroDivisionError)
       \<and> (speed < 0 \<longrightarrow> speed_distance_to_time speed distance aircraft
             = Inr (distance / ((if truthy aircraft then speed / 4 else speed) * 24 / 668)))
       \<and> (speed < 0 \<and> 0 < distance \<longrightarrow>
             (\<exists>t. speed_distance_to_time speed distance aircraft = Inr t \<and> t < 0))"
  using assms by (auto simp add: speed_distance_to_time_def divide_neg_pos divide_pos_neg)

theorem speed_distance_to_time_nonpositive_witness:
  "(0::real) \<le> 0 \<and> speed_distance_to_time 0 100 (PyBool False) = Inl ZeroDivisionError
   \<and> (- 100 :: real) \<le> 0 \<and> (- 100 :: real) < 0 \<and> (0::real) < 100
   \<and> speed_distance_to_time (- 100) 100 (PyBool True) = Inr (100 / (- 100 / 4 * 24 / 668))"
proof -
  have z: "(0::real) \<le> 0" and n: "(- 100 :: real) \<le> 0" by simp_all
  show ?thesis
    using speed_distance_to_time_nonpositive [OF z, of 100 "PyBool False"]
          speed_distance_to_time_nonpositive [OF n, of 100 "PyBool True"]
    by simp
qed

subsection \<open>The sweep\<close>

text \<open>
  Claim C10. Called without \<open>is_aircraft\<close>, \<open>income_vs_distance_speed\<close> raises
  \<open>TypeError\<close> for every cargo, every bounds and every list of speeds: the default
  \<open>False\<close> has no length.
\<close>

theorem income_vs_distance_speed_default_raises:
  "income_vs_distance_speed cargo distance_bounds speeds is_aircraft_default = Inl TypeError"
  by (simp add: income_vs_distance_speed_def is_aircraft_default_def)

text \<open>The loops raise nothing but the division's error.\<close>

lemma distance_loop_error:
  "distance_loop c s a ds cols = Inl e \<Longrightarrow> e = ZeroDivisionError"
proof (induction ds arbitrary: cols)
  case Nil
  then show ?case by (cases cols) simp
next
  case (Cons d ds)
  obtain tc ic where cols: "cols = (tc, ic)" by (cases cols)
  show ?case
  proof (cases "speed_distance_to_time s (real_of_int d) a")
    case (Inl e')
    then have "e' = ZeroDivisionError"
      by (auto simp: speed_distance_to_time_def Let_def split: if_splits)
    with Inl Cons.prems cols show ?thesis by simp
  next
    case (Inr t)
    with Cons.prems cols Cons.IH show ?thesis by (simp add: Let_def)
  qed
qed

lemma speed_loop_error:
  "speed_loop c b speeds a is df = Inl e \<Longrightarrow> e = ZeroDivisionError"
proof (induction "is" arbitrary: df)
  case Nil
  then show ?case by simp
next
  case (Cons i "is")
  show ?case
  proof (cases "distance_loop c (speeds ! i) a [fst b..snd b] (Time df, Income df)")
    case (Inl e')
    with Cons.prems have "e = e'" by (simp add: Let_def)
    with Inl distance_loop_error show ?thesis by blast
  next
    case (Inr cols)
    with Cons.prems Cons.IH show ?thesis by (cases cols) (simp add: Let_def)
  qed
qed

text \<open>
  Claim C6. With a list of flags whose length differs from the number of speeds,
  \<open>income_vs_distance_speed\<close> raises the error of its length check (a \<open>ValueError\<close>
  with the message of the source) and returns no frame; with lists of equal length it
  does not raise that error, nor a \<open>TypeError\<close>.
\<close>

theorem income_vs_distance_speed_length_check:
  "(length speeds \<noteq> length flags \<longrightarrow>
      income_vs_distance_speed cargo distance_bounds speeds (PyList flags)
        = Inl (ValueError ''speeds and aircraft must be of same length''))
   \<and> (length speeds = length flags \<longrightarrow>
      (\<forall>msg. income_vs_distance_speed cargo distance_bounds speeds (PyList flags)
               \<noteq> Inl (ValueError msg))
      \<and> income_vs_distance_speed cargo distance_bounds speeds (PyList flags) \<noteq> Inl TypeError)"
proof (intro conjI impI allI)
  assume "length speeds \<noteq> length flags"
  then show "income_vs_distance_speed cargo distance_bounds speeds (PyList flags)
        = Inl (ValueError ''speeds and aircraft must be of same length'')"
    by (simp add: income_vs_distance_speed_def)
next
  fix msg
  assume "length speeds = length flags"
  then show "income_vs_distance_speed cargo distance_bounds speeds (PyList flags)
               \<noteq> Inl (ValueError msg)"
    using speed_loop_error by (fastforce simp: income_vs_distance_speed_def)
next
  assume "length speeds = length flags"
  then show "income_vs_distance_speed cargo distance_bounds speeds (PyList flags) \<noteq> Inl TypeError"
    using speed_loop_error by (fastforce simp: income_vs_distance_speed_def)
qed

theorem income_vs_distance_speed_length_check_witness:
  "length [50 :: real] \<noteq> length ([] :: bool list)
   \<and> income_vs_distance_speed Passengers (0, 500) [50] (PyList [])
        = Inl (ValueError ''speeds and aircraft must be of same length'')
   \<and> length [50 :: real] = length [False]
   \<and> income_vs_distance_speed Passengers (0, 500) [50] (PyList [False])
        \<noteq> Inl (ValueError ''speeds and aircraft must be of same length'')"
proof -
  have ne: "length [50 :: real] \<noteq> length ([] :: bool list)" by simp
  have eq: "length [50 :: real] = length [False]" by simp
  show ?thesis
    using income_vs_distance_speed_length_check [of "[50]" "[]" Passengers "(0, 500)"]
          income_vs_distance_speed_length_check [of "[50]" "[False]" Passengers "(0, 500)"]
          ne eq
    by blast
qed

text \<open>A list of flags that is not empty counts as true, whatever it holds.\<close>

lemma speed_distance_to_time_list_flag:
  "flags \<noteq> [] \<Longrightarrow>
     speed_distance_to_time speed distance (PyList flags)
       = speed_distance_to_time speed distance (PyBool True)"
  by (simp add: speed_distance_to_time_def)

text \<open>
  Claim C4 says that the time of each sample is computed with the aircraft flag paired
  with the sample's speed. The inner loop passes the whole list \<open>is_aircraft\<close> to
  \<open>speed_distance_to_time\<close>. For \<open>Passengers\<close>, distances \<open>[100, 100]\<close>, speeds
  \<open>[100]\<close> and flags \<open>[False]\<close> the time of the one sample is \<open>334/3\<close>, the time of an
  aircraft, where the speed's own flag gives \<open>167/6\<close>; the income is the floor
  \<open>3185 * 31 * 2^-21\<close>, where the time \<open>167/6\<close> gives \<open>3185 * 100 * (839/6) * 2^-21\<close>.
\<close>

theorem income_vs_distance_speed_ignores_own_flag:
  "income_vs_distance_speed Passengers (100, 100) [100] (PyList [False])
     = Inr \<lparr>Speed = [100], Distance = [100], Time = [334 / 3],
            Income = [3185 * 1 * 31 * (2 powi (-21))]\<rparr>
   \<and> speed_distance_to_time 100 100 (PyBool False) = Inr (167 / 6)
   \<and> speed_distance_to_time 100 100 (PyBool True) = Inr (334 / 3)
   \<and> income Passengers 1 100 (167 / 6) True = 3185 * 1 * 100 * (839 / 6) * (2 powi (-21))"
  by (simp add: income_vs_distance_speed_def upto.simps Let_def
        speed_distance_to_time_def income_def Passengers_def)

subsection \<open>A worked scenario\<close>

text \<open>
  Claim C7, as the spec states it: the time bonus is 139.84 and the income matches the
  printed derivation \<open>3185 * 1 * 100 * 139.84 * 2^-21\<close> within the relative tolerance
  \<open>10^-6\<close>. The code's time bonus is \<open>839/6\<close>, which is not 139.84 to two places, and
  its income differs from that of the printed derivation by more than \<open>10^-6\<close> of it.
\<close>

theorem passengers_scenario_counterexample:
  "speed_distance_to_time 100 100 (PyBool False) = Inr (167 / 6)
   \<and> spec_tbonus 0 24 (167 / 6 * 2.5) = 839 / 6
   \<and> \<not> \<bar>spec_tbonus 0 24 (167 / 6 * 2.5) - 139.84\<bar> < 0.005
   \<and> \<not> \<bar>income Passengers 1 100 (167 / 6) True - 3185 * 1 * 100 * 139.84 * (2 powi (-21))\<bar>
         \<le> (1 / 1000000) * \<bar>3185 * 1 * 100 * 139.84 * (2 powi (-21))\<bar>"
proof -
  have t: "speed_distance_to_time 100 100 (PyBool False) = Inr (167 / 6)"
    by (simp add: speed_distance_to_time_def)
  have b: "spec_tbonus 0 24 (167 / 6 * 2.5) = 839 / 6"
    by (simp add: spec_tbonus_def)
  have i: "income Passengers 1 100 (167 / 6) True = 3185 * 1 * 100 * (839 / 6) * (2 powi (-21))"
    by (simp add: income_def Passengers_def)
  show ?thesis unfolding t b i by simp
qed

text \<open>
  Claim C7, amended. \<open>Passengers\<close>, amount 1, distance 100, speed 100, not an aircraft:
  the time is \<open>167/6\<close> (27.83 to two places), the scaled time \<open>835/12\<close> (69.58), which is
  beyond \<open>days1 + days2 = 24\<close>, so the third branch gives the time bonus
  \<open>255 - 2 * (835/12 - 0) + 24 = 839/6\<close> (139.83 to two places), which is at least 31,
  and the income is \<open>3185 * 1 * 100 * (839/6) * 2^-21\<close>: 21.2 to one place, 21.24 to two,
  and within the relative tolerance \<open>10^-6\<close> of 21.236857.
\<close>

theorem passengers_scenario:
  "speed_distance_to_time 100 100 (PyBool False) = Inr (167 / 6)
   \<and> \<bar>167 / 6 - 27.83\<bar> < (0.005 :: real)
   \<and> \<bar>167 / 6 * 2.5 - 69.58\<bar> < (0.005 :: real)
   \<and> real_of_int (0 + 24) < 167 / 6 * 2.5
   \<and> spec_tbonus 0 24 (167 / 6 * 2.5) = 255 - 2 * (167 / 6 * 2.5 - 0) + 24
   \<and> spec_tbonus 0 24 (167 / 6 * 2.5) = 839 / 6
   \<and> \<bar>spec_tbonus 0 24 (167 / 6 * 2.5) - 139.83\<bar> < 0.005
   \<and> 31 \<le> spec_tbonus 0 24 (167 / 6 * 2.5)
   \<and> income Passengers 1 100 (167 / 6) True = 3185 * 1 * 100 * (839 / 6) * (2 powi (-21))
   \<and> \<bar>income Passengers 1 100 (167 / 6) True - 21.2\<bar> < 0.05
   \<and> \<bar>income Passengers 1 100 (167 / 6) True - 21.24\<bar> < 0.005
   \<and> \<bar>income Passengers 1 100 (167 / 6) True - 21.236857\<bar> \<le> (1 / 1000000) * 21.236857"
proof -
  have t: "speed_distance_to_time 100 100 (PyBool False) = Inr (167 / 6)"
    by (simp add: speed_distance_to_time_def)
  have b: "spec_tbonus 0 24 (167 / 6 * 2.5) = 839 / 6"
    by (simp add: spec_tbonus_def)
  have i: "income Passengers 1 100 (167 / 6) True = 3185 * 1 * 100 * (839 / 6) * (2 powi (-21))"
    by (simp add: income_def Passengers_def)
  show ?thesis unfolding t b i by simp
qed

end
